theory Spec2Isabelle
  imports Main "HOL-Library.AList"
begin

section \<open>The student service of \<^verbatim>\<open>myapi.py\<close>\<close>

subsection \<open>Values and dictionaries\<close>

text \<open>
  The records held in \<^verbatim>\<open>students\<close> are plain Python dictionaries from field names to
  strings and integers, so they are modelled untyped: a value is \<^verbatim>\<open>None\<close>, a string or
  an integer, and a dictionary is an association list in insertion order.
  \<^verbatim>\<open>d[k] = v\<close> is \<open>AList.update\<close> (an existing key keeps its place, a new key goes to
  the end), \<^verbatim>\<open>del d[k]\<close> is \<open>AList.delete\<close>, \<^verbatim>\<open>k in d\<close> and \<^verbatim>\<open>d[k]\<close> read
  \<open>map_of\<close>, and \<^verbatim>\<open>for k in d\<close> runs over \<open>map fst d\<close>.
\<close>

datatype pyval = PNone | PStr string | PInt int

type_synonym pydict = "(string \<times> pyval) list"

type_synonym store = "(int \<times> pydict) list"

text \<open>
  What a request can end in besides a JSON body with status 200: the framework's
  validation error (422), the \<^verbatim>\<open>HTTPException\<close> a handler raises, and a \<^verbatim>\<open>KeyError\<close>
  from a subscript on a missing key, which nothing catches (500).
\<close>

datatype failure = RequestValidationError | HTTPException nat string | KeyError

type_synonym response = "failure + pydict"

fun status_code :: "response \<Rightarrow> nat" where
  "status_code (Inr _) = 200"
| "status_code (Inl RequestValidationError) = 422"
| "status_code (Inl (HTTPException c _)) = c"
| "status_code (Inl KeyError) = 500"

text \<open>
  The JSON body the framework sends where the source fixes it: the dictionary a handler
  returns, and \<^verbatim>\<open>{"detail": ...}\<close> for an \<^verbatim>\<open>HTTPException\<close>.
\<close>

fun json_body :: "response \<Rightarrow> pydict option" where
  "json_body (Inr d) = Some d"
| "json_body (Inl (HTTPException _ detail)) = Some [(''detail'', PStr detail)]"
| "json_body (Inl _) = None"

definition contains :: "('k \<times> 'v) list \<Rightarrow> 'k \<Rightarrow> bool" where
  "contains d k = (map_of d k \<noteq> None)"

definition getitem :: "('k \<times> 'v) list \<Rightarrow> 'k \<Rightarrow> failure + 'v" where
  "getitem d k = (case map_of d k of None \<Rightarrow> Inl KeyError | Some v \<Rightarrow> Inr v)"

text \<open>\<^verbatim>\<open>students[student_id][field] = v\<close>: the inner dictionary is changed in place.\<close>

definition setfield :: "int \<Rightarrow> string \<Rightarrow> pyval \<Rightarrow> store \<Rightarrow> failure + store" where
  "setfield student_id field v s =
     (case map_of s student_id of
        None \<Rightarrow> Inl KeyError
      | Some r \<Rightarrow> Inr (AList.update student_id (AList.update field v r) s))"

subsection \<open>The seed data and the request models\<close>

definition students :: store where
  "students =
     [(1, [(''name'', PStr ''anurag adarsh''), (''age'', PInt 20), (''year'', PStr ''year 26'')]),
      (2, [(''name'', PStr ''mohit''), (''age'', PInt 22), (''year'', PStr ''year 26'')])]"

record Student =
  name :: string
  age :: int
  year :: string

record UpdateStudent =
  upd_name :: "string option"
  upd_age :: "int option"
  upd_year :: "string option"

text \<open>\<^verbatim>\<open>student.dict()\<close>\<close>

definition dict :: "Student \<Rightarrow> pydict" where
  "dict student =
     [(''name'', PStr (name student)), (''age'', PInt (age student)),
      (''year'', PStr (year student))]"

text \<open>
  A field of the JSON body of \<^verbatim>\<open>PUT /update-student\<close>: left out, given as \<^verbatim>\<open>null\<close>, or
  given with a value. Each field of \<^verbatim>\<open>UpdateStudent\<close> is declared
  \<^verbatim>\<open>Optional[...] = None\<close>: a field left out takes the default \<^verbatim>\<open>None\<close>, and
  \<^verbatim>\<open>null\<close> is the value \<^verbatim>\<open>None\<close>.
\<close>

datatype 'a body_field = Absent | Null | Given 'a

record UpdateBody =
  body_name :: "string body_field"
  body_age :: "int body_field"
  body_year :: "string body_field"

fun optional :: "'a body_field \<Rightarrow> 'a option" where
  "optional Absent = None"
| "optional Null = None"
| "optional (Given v) = Some v"

definition parse_UpdateStudent :: "UpdateBody \<Rightarrow> UpdateStudent" where
  "parse_UpdateStudent b =
     \<lparr>upd_name = optional (body_name b), upd_age = optional (body_age b),
      upd_year = optional (body_year b)\<rparr>"

subsection \<open>The handlers\<close>

definition index :: response where
  "index = Inr [(''name'', PStr ''First Data'')]"

definition get_student :: "int \<Rightarrow> store \<Rightarrow> response" where
  "get_student student_id s =
     (if \<not> contains s student_id then Inl (HTTPException 404 ''Student not found'')
      else getitem s student_id)"

text \<open>
  \<^verbatim>\<open>Path(..., gt=0, lt=4)\<close>: the framework checks the bounds and answers 422 without
  calling the handler.
\<close>

definition get_student_route :: "int \<Rightarrow> store \<Rightarrow> response" where
  "get_student_route student_id s =
     (if 0 < student_id \<and> student_id < 4 then get_student student_id s
      else Inl RequestValidationError)"

text \<open>The query parameter \<^verbatim>\<open>name: Optional[str] = None\<close> as the value the handler compares.\<close>

fun name_value :: "string option \<Rightarrow> pyval" where
  "name_value None = PNone"
| "name_value (Some n) = PStr n"

text \<open>
  The loop \<^verbatim>\<open>for student_id in students\<close> of both name lookups, over the keys still to
  visit: \<^verbatim>\<open>students[student_id]["name"]\<close> is two subscripts.
\<close>

fun scan_names :: "int list \<Rightarrow> store \<Rightarrow> pyval \<Rightarrow> response" where
  "scan_names [] s nm = Inr [(''Data'', PStr ''Not found'')]"
| "scan_names (student_id # ks) s nm =
     (case getitem s student_id of
        Inl e \<Rightarrow> Inl e
      | Inr r \<Rightarrow>
          (case getitem r ''name'' of
             Inl e \<Rightarrow> Inl e
           | Inr v \<Rightarrow> if v = nm then getitem s student_id else scan_names ks s nm))"

definition get_student_by_name :: "string option \<Rightarrow> int \<Rightarrow> store \<Rightarrow> response" where
  "get_student_by_name nm test s = scan_names (map fst s) s (name_value nm)"

text \<open>The loop variable shadows the path parameter \<^verbatim>\<open>student_id\<close>.\<close>

definition get_student_by_name_combine :: "int \<Rightarrow> string option \<Rightarrow> int \<Rightarrow> store \<Rightarrow> response" where
  "get_student_by_name_combine student_id nm test s = scan_names (map fst s) s (name_value nm)"

text \<open>\<^verbatim>\<open>test: int\<close> has no default: a request without it is answered 422.\<close>

definition get_by_name_route :: "string option \<Rightarrow> int option \<Rightarrow> store \<Rightarrow> response" where
  "get_by_name_route nm test s =
     (case test of None \<Rightarrow> Inl RequestValidationError | Some t \<Rightarrow> get_student_by_name nm t s)"

definition get_by_name_combine_route ::
  "int \<Rightarrow> string option \<Rightarrow> int option \<Rightarrow> store \<Rightarrow> response" where
  "get_by_name_combine_route student_id nm test s =
     (case test of
        None \<Rightarrow> Inl RequestValidationError
      | Some t \<Rightarrow> get_student_by_name_combine student_id nm t s)"

definition create_student :: "int \<Rightarrow> Student \<Rightarrow> store \<Rightarrow> response \<times> store" where
  "create_student student_id student s =
     (if contains s student_id then (Inr [(''Error'', PStr ''Student exists'')], s)
      else
        (let s' = AList.update student_id (dict student) s
         in (getitem s' student_id, s')))"

text \<open>One of the three guarded assignments of \<^verbatim>\<open>update_student\<close>.\<close>

definition assign_if_given :: "int \<Rightarrow> string \<Rightarrow> pyval option \<Rightarrow> store \<Rightarrow> failure + store" where
  "assign_if_given student_id field v s =
     (case v of None \<Rightarrow> Inr s | Some x \<Rightarrow> setfield student_id field x s)"

definition update_student :: "int \<Rightarrow> UpdateStudent \<Rightarrow> store \<Rightarrow> response \<times> store" where
  "update_student student_id student s =
     (if \<not> contains s student_id then (Inr [(''Error'', PStr ''Students does not exits'')], s)
      else
        (case assign_if_given student_id ''name'' (map_option PStr (upd_name student)) s of
           Inl e \<Rightarrow> (Inl e, s)
         | Inr s1 \<Rightarrow>
            (case assign_if_given student_id ''age'' (map_option PInt (upd_age student)) s1 of
               Inl e \<Rightarrow> (Inl e, s1)
             | Inr s2 \<Rightarrow>
                (case assign_if_given student_id ''year'' (map_option PStr (upd_year student)) s2 of
                   Inl e \<Rightarrow> (Inl e, s2)
                 | Inr s3 \<Rightarrow> (getitem s3 student_id, s3)))))"

definition delete_student :: "int \<Rightarrow> store \<Rightarrow> response \<times> store" where
  "delete_student student_id s =
     (if \<not> contains s student_id then (Inr [(''Error'', PStr ''Student does not exists'')], s)
      else (Inr [(''Message'', PStr ''Student deleted successfully'')],
            AList.delete student_id s))"

subsection \<open>Requests and runs\<close>

datatype request =
    GetIndex
  | GetStudent int
  | GetByName "string option" "int option"
  | GetByNameCombine int "string option" "int option"
  | CreateStudent int Student
  | PutStudent int UpdateBody
  | DeleteStudent int

fun serve :: "request \<Rightarrow> store \<Rightarrow> response \<times> store" where
  "serve GetIndex s = (index, s)"
| "serve (GetStudent i) s = (get_student_route i s, s)"
| "serve (GetByName nm test) s = (get_by_name_route nm test s, s)"
| "serve (GetByNameCombine i nm test) s = (get_by_name_combine_route i nm test s, s)"
| "serve (CreateStudent i student) s = create_student i student s"
| "serve (PutStudent i b) s = update_student i (parse_UpdateStudent b) s"
| "serve (DeleteStudent i) s = delete_student i s"

fun run :: "request list \<Rightarrow> store \<Rightarrow> store" where
  "run [] s = s"
| "run (q # qs) s = run qs (snd (serve q s))"

subsection \<open>Well-formed stores\<close>

fun is_str :: "pyval option \<Rightarrow> bool" where
  "is_str (Some (PStr _)) = True"
| "is_str _ = False"

fun is_int :: "pyval option \<Rightarrow> bool" where
  "is_int (Some (PInt _)) = True"
| "is_int _ = False"

text \<open>A fully populated record: exactly the three fields, each of its type.\<close>

definition full_record :: "pydict \<Rightarrow> bool" where
  "full_record r =
     (distinct (map fst r) \<and> set (map fst r) = {''name'', ''age'', ''year''} \<and>
      is_str (map_of r ''name'') \<and> is_int (map_of r ''age'') \<and> is_str (map_of r ''year''))"

definition store_ok :: "store \<Rightarrow> bool" where
  "store_ok s = (distinct (map fst s) \<and> list_all (\<lambda>kr. full_record (snd kr)) s)"

subsection \<open>Notions used in the statements\<close>

text \<open>The record a partial update is expected to leave: given fields overwritten, in the
  order name, age, year; the others as they were.\<close>

definition put_field :: "string \<Rightarrow> pyval option \<Rightarrow> pydict \<Rightarrow> pydict" where
  "put_field field v r = (case v of None \<Rightarrow> r | Some x \<Rightarrow> AList.update field x r)"

definition merged :: "UpdateStudent \<Rightarrow> pydict \<Rightarrow> pydict" where
  "merged u r =
     put_field ''year'' (map_option PStr (upd_year u))
       (put_field ''age'' (map_option PInt (upd_age u))
          (put_field ''name'' (map_option PStr (upd_name u)) r))"

text \<open>A request body with every \<^verbatim>\<open>null\<close> field left out instead.\<close>

fun null_to_absent :: "'a body_field \<Rightarrow> 'a body_field" where
  "null_to_absent Null = Absent"
| "null_to_absent f = f"

definition drop_nulls :: "UpdateBody \<Rightarrow> UpdateBody" where
  "drop_nulls b =
     \<lparr>body_name = null_to_absent (body_name b), body_age = null_to_absent (body_age b),
      body_year = null_to_absent (body_year b)\<rparr>"

text \<open>The store after deleting \<open>student_id\<close> \<open>n\<close> times in a row.\<close>

fun delete_times :: "nat \<Rightarrow> int \<Rightarrow> store \<Rightarrow> store" where
  "delete_times 0 student_id s = s"
| "delete_times (Suc n) student_id s = delete_times n student_id (snd (delete_student student_id s))"

section \<open>Properties\<close>

subsection \<open>Subscripts and the partial update\<close>

lemma getitem_simps:
  "map_of d k = Some v \<Longrightarrow> getitem d k = Inr v"
  "map_of d k = None \<Longrightarrow> getitem d k = Inl KeyError"
  by (simp_all add: getitem_def)

lemma assign_if_given_present:
  assumes "map_of s i = Some r"
  shows "assign_if_given i f v s = Inr (AList.update i (put_field f v r) s)"
  using assms
  by (cases v) (simp_all add: assign_if_given_def setfield_def put_field_def AList.update_triv)

lemma map_of_update_same: "map_of (AList.update k v al) k = Some v"
  by (simp add: AList.update_conv')

lemma update_student_present:
  assumes "map_of s i = Some r"
  shows "update_student i u s = (Inr (merged u r), AList.update i (merged u r) s)"
proof -
  let ?r1 = "put_field ''name'' (map_option PStr (upd_name u)) r"
  let ?r2 = "put_field ''age'' (map_option PInt (upd_age u)) ?r1"
  let ?r3 = "put_field ''year'' (map_option PStr (upd_year u)) ?r2"
  let ?s1 = "AList.update i ?r1 s"
  let ?s2 = "AList.update i ?r2 s"
  let ?s3 = "AList.update i ?r3 s"
  have a1: "assign_if_given i ''name'' (map_option PStr (upd_name u)) s = Inr ?s1"
    using assms by (rule assign_if_given_present)
  have a2: "assign_if_given i ''age'' (map_option PInt (upd_age u)) ?s1 = Inr ?s2"
    using assign_if_given_present [of ?s1 i ?r1] by (simp add: map_of_update_same)
  have a3: "assign_if_given i ''year'' (map_option PStr (upd_year u)) ?s2 = Inr ?s3"
    using assign_if_given_present [of ?s2 i ?r2] by (simp add: map_of_update_same)
  have c: "contains s i" using assms by (simp add: contains_def)
  show ?thesis
    by (simp add: update_student_def c a1 a2 a3 merged_def getitem_simps map_of_update_same)
qed

lemma update_student_absent:
  "map_of s i = None \<Longrightarrow> update_student i u s = (Inr [(''Error'', PStr ''Students does not exits'')], s)"
  by (simp add: update_student_def contains_def)


subsection \<open>The name scan\<close>

lemma scan_names_find:
  assumes "distinct (map fst s)" and "set xs \<subseteq> set s"
    and "\<forall>kr \<in> set xs. \<exists>v. map_of (snd kr) ''name'' = Some v"
  shows "scan_names (map fst xs) s nm =
         (case find (\<lambda>kr. map_of (snd kr) ''name'' = Some nm) xs of
            None \<Rightarrow> Inr [(''Data'', PStr ''Not found'')]
          | Some kr \<Rightarrow> Inr (snd kr))"
  using assms(2,3)
proof (induction xs)
  case Nil
  then show ?case by simp
next
  case (Cons x xs)
  obtain k r where x: "x = (k, r)" by (cases x)
  from Cons.prems x have "(k, r) \<in> set s" by simp
  with assms(1) have look: "map_of s k = Some r" by simp
  from Cons.prems x obtain v where v: "map_of r ''name'' = Some v" by auto
  from Cons have IH: "scan_names (map fst xs) s nm =
         (case find (\<lambda>kr. map_of (snd kr) ''name'' = Some nm) xs of
            None \<Rightarrow> Inr [(''Data'', PStr ''Not found'')]
          | Some kr \<Rightarrow> Inr (snd kr))" by simp
  show ?case
    by (simp add: x getitem_simps look v IH)
qed

lemma full_record_name: "full_record r \<Longrightarrow> \<exists>n. map_of r ''name'' = Some (PStr n)"
  by (cases "map_of r ''name''" rule: is_str.cases) (simp_all add: full_record_def)

lemma store_ok_record: "store_ok s \<Longrightarrow> (k, r) \<in> set s \<Longrightarrow> full_record r"
  by (auto simp: store_ok_def list_all_iff)

lemma store_ok_lookup: "store_ok s \<Longrightarrow> map_of s k = Some r \<Longrightarrow> full_record r"
  by (auto dest: map_of_SomeD store_ok_record)

lemma get_student_by_name_find:
  assumes "store_ok s"
  shows "get_student_by_name nm t s =
         (case find (\<lambda>kr. map_of (snd kr) ''name'' = Some (name_value nm)) s of
            None \<Rightarrow> Inr [(''Data'', PStr ''Not found'')]
          | Some kr \<Rightarrow> Inr (snd kr))"
proof -
  have d: "distinct (map fst s)" using assms by (simp add: store_ok_def)
  have n: "\<forall>kr \<in> set s. \<exists>v. map_of (snd kr) ''name'' = Some v"
  proof
    fix kr assume "kr \<in> set s"
    then have "full_record (snd kr)" using assms by (simp add: store_ok_def list_all_iff)
    then show "\<exists>v. map_of (snd kr) ''name'' = Some v" by (blast dest: full_record_name)
  qed
  show ?thesis
    unfolding get_student_by_name_def by (rule scan_names_find [OF d _ n]) simp
qed


subsection \<open>Well-formed stores stay well-formed\<close>

lemma set_update_subset: "set (AList.update k v al) \<subseteq> insert (k, v) (set al)"
  by (induction al) auto

lemma store_ok_students: "store_ok students"
  by (simp add: store_ok_def students_def full_record_def insert_commute)

lemma full_record_dict: "full_record (dict st)"
  by (simp add: full_record_def dict_def insert_commute)

lemma full_record_set_name: "full_record r \<Longrightarrow> full_record (AList.update ''name'' (PStr n) r)"
  by (auto simp: full_record_def AList.distinct_update AList.dom_update AList.update_conv')

lemma full_record_set_age: "full_record r \<Longrightarrow> full_record (AList.update ''age'' (PInt n) r)"
  by (auto simp: full_record_def AList.distinct_update AList.dom_update AList.update_conv')

lemma full_record_set_year: "full_record r \<Longrightarrow> full_record (AList.update ''year'' (PStr n) r)"
  by (auto simp: full_record_def AList.distinct_update AList.dom_update AList.update_conv')

lemma full_record_merged: "full_record r \<Longrightarrow> full_record (merged u r)"
  by (cases "upd_name u"; cases "upd_age u"; cases "upd_year u")
     (simp_all add: merged_def put_field_def full_record_set_name full_record_set_age
        full_record_set_year)

lemma store_ok_update:
  assumes "store_ok s" and "full_record r"
  shows "store_ok (AList.update k r s)"
proof -
  have "distinct (map fst (AList.update k r s))"
    using assms(1) by (simp add: store_ok_def AList.distinct_update)
  moreover have "full_record (snd kr)" if "kr \<in> set (AList.update k r s)" for kr
  proof -
    from that set_update_subset [of k r s] have "kr = (k, r) \<or> kr \<in> set s" by auto
    then show ?thesis using assms by (auto simp: store_ok_def list_all_iff)
  qed
  ultimately show ?thesis by (simp add: store_ok_def list_all_iff)
qed

lemma store_ok_delete:
  assumes "store_ok s"
  shows "store_ok (AList.delete k s)"
proof -
  have "distinct (map fst (AList.delete k s))"
    using assms by (simp add: store_ok_def AList.distinct_delete)
  moreover have "set (AList.delete k s) \<subseteq> set s"
    by (auto simp: AList.delete_eq)
  ultimately show ?thesis
    using assms by (auto simp: store_ok_def list_all_iff)
qed

lemma create_student_store_ok: "store_ok s \<Longrightarrow> store_ok (snd (create_student i st s))"
  by (simp add: create_student_def Let_def store_ok_update full_record_dict)

lemma update_student_store_ok:
  assumes "store_ok s"
  shows "store_ok (snd (update_student i u s))"
proof (cases "map_of s i")
  case None
  then show ?thesis using assms by (simp add: update_student_absent)
next
  case (Some r)
  then have "full_record (merged u r)"
    using assms by (blast intro: full_record_merged store_ok_lookup)
  then show ?thesis using assms Some by (simp add: update_student_present store_ok_update)
qed

lemma delete_student_store_ok: "store_ok s \<Longrightarrow> store_ok (snd (delete_student i s))"
  by (simp add: delete_student_def store_ok_delete)

lemma serve_store_ok: "store_ok s \<Longrightarrow> store_ok (snd (serve q s))"
  by (cases q)
     (simp_all add: create_student_store_ok update_student_store_ok delete_student_store_ok)

lemma run_store_ok: "store_ok s \<Longrightarrow> store_ok (run qs s)"
  by (induction qs arbitrary: s) (simp_all add: serve_store_ok)


lemma map_of_put_field:
  "map_of (put_field f v r) g =
     (case v of None \<Rightarrow> map_of r g | Some x \<Rightarrow> if g = f then Some x else map_of r g)"
  by (cases v) (simp_all add: put_field_def AList.update_conv')

lemma map_of_merged:
  "map_of (merged u r) f =
     (if f = ''year'' \<and> upd_year u \<noteq> None then map_option PStr (upd_year u)
      else if f = ''age'' \<and> upd_age u \<noteq> None then map_option PInt (upd_age u)
      else if f = ''name'' \<and> upd_name u \<noteq> None then map_option PStr (upd_name u)
      else map_of r f)"
  by (cases "upd_name u"; cases "upd_age u"; cases "upd_year u")
     (simp_all add: merged_def map_of_put_field)

lemma find_first:
  "\<forall>y \<in> set pre. \<not> P y \<Longrightarrow> P x \<Longrightarrow> find P (pre @ x # post) = Some x"
  by (induction pre) simp_all

lemma delete_student_absent:
  "\<not> contains s i \<Longrightarrow> delete_student i s = (Inr [(''Error'', PStr ''Student does not exists'')], s)"
  by (simp add: delete_student_def)

lemma not_contains_delete: "\<not> contains (AList.delete i s) i"
  by (simp add: contains_def AList.delete_conv')

lemma not_contains_after_delete: "\<not> contains (snd (delete_student i s)) i"
  by (simp add: delete_student_def not_contains_delete)

lemma delete_times_Suc: "\<not> contains (delete_times (Suc n) i s) i"
proof (induction n arbitrary: s)
  case 0
  show ?case by (simp add: not_contains_after_delete)
next
  case (Suc n)
  from Suc [of "snd (delete_student i s)"] show ?case by simp
qed

text \<open>
  Claim C1. \<^verbatim>\<open>GET /get-student/{student_id}\<close>: for every integer id the answer is the
  validation error 422 exactly when the id is outside the open interval (0, 4), and then
  it is the same whatever the store holds, so no lookup has taken place. For an id within
  the bounds the answer is 404, with body \<^verbatim>\<open>{"detail": "Student not found"}\<close>, exactly
  when the id is not a key of the store; otherwise it is the stored record with status 200.
\<close>

theorem get_student_route_spec:
  "(status_code (get_student_route i s) = 422 \<longleftrightarrow> \<not> (0 < i \<and> i < 4)) \<and>
   (\<not> (0 < i \<and> i < 4) \<longrightarrow>
      get_student_route i s = Inl RequestValidationError \<and>
      get_student_route i s' = get_student_route i s) \<and>
   (0 < i \<and> i < 4 \<longrightarrow>
      (status_code (get_student_route i s) = 404 \<longleftrightarrow> \<not> contains s i) \<and>
      (\<not> contains s i \<longrightarrow>
         json_body (get_student_route i s) = Some [(''detail'', PStr ''Student not found'')]) \<and>
      (\<forall>r. map_of s i = Some r \<longrightarrow>
         get_student_route i s = Inr r \<and> status_code (get_student_route i s) = 200))"
  by (cases "map_of s i")
     (simp_all add: get_student_route_def get_student_def contains_def getitem_def)

theorem get_student_route_spec_witness:
  "get_student_route 999 [] = get_student_route 999 students \<and>
   status_code (get_student_route 4 students) = 422 \<and>
   status_code (get_student_route 3 students) = 404 \<and>
   get_student_route 2 students =
     Inr [(''name'', PStr ''mohit''), (''age'', PInt 22), (''year'', PStr ''year 26'')]"
  using get_student_route_spec [of 999 students "[]"] get_student_route_spec [of 4 students "[]"]
    get_student_route_spec [of 3 students "[]"] get_student_route_spec [of 2 students "[]"]
  by (simp add: students_def contains_def)

text \<open>
  Claim C2. \<^verbatim>\<open>PUT /update-student/{student_id}\<close> on an id of the store: the handler
  returns, with status 200, the merged record, which is also what the store then holds at
  that id. In the merged record each of name, age and year is the value of the request if
  the request has one and the stored value otherwise, and no other field differs. Every
  other entry of the store, and the order of its keys, is unchanged. The witness is the
  update of record 1 with \<^verbatim>\<open>{"age": 99}\<close>.
\<close>

theorem update_student_merges:
  assumes "map_of s i = Some r"
  shows "fst (update_student i u s) = Inr (merged u r) \<and>
         status_code (fst (update_student i u s)) = 200 \<and>
         map_of (snd (update_student i u s)) i = Some (merged u r) \<and>
         (\<forall>k. k \<noteq> i \<longrightarrow> map_of (snd (update_student i u s)) k = map_of s k) \<and>
         map fst (snd (update_student i u s)) = map fst s \<and>
         map_of (merged u r) ''name'' =
           (case upd_name u of None \<Rightarrow> map_of r ''name'' | Some n \<Rightarrow> Some (PStr n)) \<and>
         map_of (merged u r) ''age'' =
           (case upd_age u of None \<Rightarrow> map_of r ''age'' | Some a \<Rightarrow> Some (PInt a)) \<and>
         map_of (merged u r) ''year'' =
           (case upd_year u of None \<Rightarrow> map_of r ''year'' | Some y \<Rightarrow> Some (PStr y)) \<and>
         (\<forall>f. f \<notin> {''name'', ''age'', ''year''} \<longrightarrow> map_of (merged u r) f = map_of r f)"
proof -
  have key: "i \<in> set (map fst s)"
    using assms by (auto dest: map_of_SomeD intro: rev_image_eqI)
  have "map fst (snd (update_student i u s)) = map fst s"
    using assms key by (simp add: update_student_present AList.update_keys)
  moreover have "\<forall>k. k \<noteq> i \<longrightarrow> map_of (snd (update_student i u s)) k = map_of s k"
    using assms by (simp add: update_student_present AList.update_conv')
  moreover have "map_of (snd (update_student i u s)) i = Some (merged u r)"
    using assms by (simp add: update_student_present map_of_update_same)
  moreover have "fst (update_student i u s) = Inr (merged u r)"
    using assms by (simp add: update_student_present)
  ultimately show ?thesis
    by (simp add: map_of_merged split: option.split)
qed

theorem update_student_merges_witness:
  "map_of students 1 =
     Some [(''name'', PStr ''anurag adarsh''), (''age'', PInt 20), (''year'', PStr ''year 26'')] \<and>
   update_student 1 \<lparr>upd_name = None, upd_age = Some 99, upd_year = None\<rparr> students =
     (Inr [(''name'', PStr ''anurag adarsh''), (''age'', PInt 99), (''year'', PStr ''year 26'')],
      [(1, [(''name'', PStr ''anurag adarsh''), (''age'', PInt 99), (''year'', PStr ''year 26'')]),
       (2, [(''name'', PStr ''mohit''), (''age'', PInt 22), (''year'', PStr ''year 26'')])])"
proof -
  let ?r = "[(''name'', PStr ''anurag adarsh''), (''age'', PInt 20), (''year'', PStr ''year 26'')]"
  let ?u = "\<lparr>upd_name = None, upd_age = Some 99, upd_year = None\<rparr>"
  have h: "map_of students 1 = Some ?r" by (simp add: students_def)
  have m: "merged ?u ?r =
      [(''name'', PStr ''anurag adarsh''), (''age'', PInt 99), (''year'', PStr ''year 26'')]"
    by (simp add: merged_def put_field_def)
  have "snd (update_student 1 ?u students) =
      [(1, [(''name'', PStr ''anurag adarsh''), (''age'', PInt 99), (''year'', PStr ''year 26'')]),
       (2, [(''name'', PStr ''mohit''), (''age'', PInt 22), (''year'', PStr ''year 26'')])]"
    by (simp add: update_student_def contains_def students_def assign_if_given_def setfield_def
        getitem_def)
  with update_student_merges [OF h, of ?u] h m show ?thesis
    by (simp add: prod_eq_iff)
qed

text \<open>
  Claim C3. \<^verbatim>\<open>POST /create-student/{student_id}\<close> on an id of the store returns
  \<^verbatim>\<open>{"Error": "Student exists"}\<close> with status 200 and leaves the whole store, and so
  the record at that id, as it was.
\<close>

theorem create_student_exists:
  assumes "contains s i"
  shows "create_student i st s = (Inr [(''Error'', PStr ''Student exists'')], s) \<and>
         status_code (fst (create_student i st s)) = 200 \<and>
         map_of (snd (create_student i st s)) i = map_of s i"
  using assms by (simp add: create_student_def)

theorem create_student_exists_witness:
  "contains students 1 \<and>
   create_student 1 \<lparr>name = ''asha'', age = 21, year = ''year 27''\<rparr> students =
     (Inr [(''Error'', PStr ''Student exists'')], students)"
proof -
  have h: "contains students 1" by (simp add: contains_def students_def)
  from create_student_exists [OF h] h show ?thesis by simp
qed

text \<open>
  Claim C4. \<^verbatim>\<open>GET /get-by-name\<close> with \<^verbatim>\<open>test\<close> supplied, on a well-formed store: the
  answer is the record of the first entry, in the store's iteration order, whose
  \<^verbatim>\<open>name\<close> field equals the query parameter, with status 200: an entry that matches and
  is preceded by no matching entry is the one returned. When no entry matches the answer
  is \<^verbatim>\<open>{"Data": "Not found"}\<close>, still with status 200; so it is when \<^verbatim>\<open>name\<close> is
  left out, every stored name being a string. The answer is a single record.
\<close>

theorem get_by_name_first_match:
  assumes "store_ok s"
  shows "get_by_name_route nm (Some t) s =
           (case find (\<lambda>kr. map_of (snd kr) ''name'' = Some (name_value nm)) s of
              None \<Rightarrow> Inr [(''Data'', PStr ''Not found'')]
            | Some kr \<Rightarrow> Inr (snd kr)) \<and>
         status_code (get_by_name_route nm (Some t) s) = 200 \<and>
         (\<forall>pre k r post.
            s = pre @ (k, r) # post \<and>
            (\<forall>kr \<in> set pre. map_of (snd kr) ''name'' \<noteq> Some (name_value nm)) \<and>
            map_of r ''name'' = Some (name_value nm) \<longrightarrow>
            get_by_name_route nm (Some t) s = Inr r) \<and>
         ((\<forall>kr \<in> set s. map_of (snd kr) ''name'' \<noteq> Some (name_value nm)) \<longrightarrow>
            get_by_name_route nm (Some t) s = Inr [(''Data'', PStr ''Not found'')]) \<and>
         (nm = None \<longrightarrow> get_by_name_route nm (Some t) s = Inr [(''Data'', PStr ''Not found'')])"
proof -
  let ?P = "\<lambda>kr. map_of (snd kr) ''name'' = Some (name_value nm)"
  let ?nf = "Inr [(''Data'', PStr ''Not found'')] :: response"
  have eq: "get_by_name_route nm (Some t) s =
      (case find ?P s of None \<Rightarrow> ?nf | Some kr \<Rightarrow> Inr (snd kr))"
    using assms by (simp add: get_by_name_route_def get_student_by_name_find)
  have st: "status_code (get_by_name_route nm (Some t) s) = 200"
    by (simp add: eq split: option.split)
  have first: "get_by_name_route nm (Some t) s = Inr r"
    if "s = pre @ (k, r) # post" "\<forall>kr \<in> set pre. \<not> ?P kr" "map_of r ''name'' = Some (name_value nm)"
    for pre k r post
  proof -
    have "find ?P (pre @ (k, r) # post) = Some (k, r)"
      using that(2,3) by (intro find_first) simp_all
    then show ?thesis unfolding eq by (simp add: that(1))
  qed
  have none: "get_by_name_route nm (Some t) s = ?nf" if "\<forall>kr \<in> set s. \<not> ?P kr"
  proof -
    from that have "find ?P s = None" by (auto simp: find_None_iff)
    then show ?thesis by (simp add: eq)
  qed
  have absent: "get_by_name_route nm (Some t) s = ?nf" if "nm = None"
  proof (rule none, rule ballI)
    fix kr assume "kr \<in> set s"
    then have "full_record (snd kr)"
      using assms by (simp add: store_ok_def list_all_iff)
    then obtain n where "map_of (snd kr) ''name'' = Some (PStr n)"
      by (blast dest: full_record_name)
    then show "\<not> ?P kr" using that by simp
  qed
  from eq st first none absent show ?thesis by blast
qed

theorem get_by_name_first_match_witness:
  "store_ok students \<and>
   get_by_name_route (Some ''mohit'') (Some 1) students =
     Inr [(''name'', PStr ''mohit''), (''age'', PInt 22), (''year'', PStr ''year 26'')] \<and>
   get_by_name_route (Some ''zzz'') (Some 1) students = Inr [(''Data'', PStr ''Not found'')] \<and>
   get_by_name_route None (Some 1) students = Inr [(''Data'', PStr ''Not found'')]"
  using get_by_name_first_match [OF store_ok_students, of "Some ''mohit''" 1]
    get_by_name_first_match [OF store_ok_students, of "Some ''zzz''" 1]
    get_by_name_first_match [OF store_ok_students, of None 1] store_ok_students
  by (simp add: students_def)

text \<open>
  Claim C5. \<^verbatim>\<open>DELETE /delete-student/{student_id}\<close>: on an id that is not in the store
  the answer is \<^verbatim>\<open>{"Error": "Student does not exists"}\<close> and the store is unchanged; on
  an id of the store the answer is \<^verbatim>\<open>{"Message": "Student deleted successfully"}\<close>, the
  id is no longer in the store and the other entries are as before, in their order. The
  status is 200 either way. After the id has been deleted once or more, deleting it again
  gives the error message and changes nothing.
\<close>

theorem delete_student_spec:
  "(\<not> contains s i \<longrightarrow>
      delete_student i s = (Inr [(''Error'', PStr ''Student does not exists'')], s)) \<and>
   (contains s i \<longrightarrow>
      fst (delete_student i s) = Inr [(''Message'', PStr ''Student deleted successfully'')] \<and>
      \<not> contains (snd (delete_student i s)) i \<and>
      (\<forall>k. k \<noteq> i \<longrightarrow> map_of (snd (delete_student i s)) k = map_of s k) \<and>
      snd (delete_student i s) = filter (\<lambda>kr. fst kr \<noteq> i) s) \<and>
   status_code (fst (delete_student i s)) = 200 \<and>
   fst (delete_student i (delete_times (Suc n) i s)) =
     Inr [(''Error'', PStr ''Student does not exists'')] \<and>
   snd (delete_student i (delete_times (Suc n) i s)) = delete_times (Suc n) i s"
proof -
  have again: "\<not> contains (delete_times (Suc n) i s) i"
    by (rule delete_times_Suc)
  have r1: "fst (delete_student i (delete_times (Suc n) i s)) =
      Inr [(''Error'', PStr ''Student does not exists'')]"
    and r2: "snd (delete_student i (delete_times (Suc n) i s)) = delete_times (Suc n) i s"
    by (simp_all only: delete_student_absent [OF again] fst_conv snd_conv)
  have f: "AList.delete i s = filter (\<lambda>kr. fst kr \<noteq> i) s"
    by (induction s) auto
  have "\<not> contains s i \<longrightarrow>
      delete_student i s = (Inr [(''Error'', PStr ''Student does not exists'')], s)"
    by (simp add: delete_student_def)
  moreover have "contains s i \<longrightarrow>
      fst (delete_student i s) = Inr [(''Message'', PStr ''Student deleted successfully'')] \<and>
      \<not> contains (snd (delete_student i s)) i \<and>
      (\<forall>k. k \<noteq> i \<longrightarrow> map_of (snd (delete_student i s)) k = map_of s k) \<and>
      snd (delete_student i s) = filter (\<lambda>kr. fst kr \<noteq> i) s"
    by (simp add: delete_student_def not_contains_delete f [symmetric])
  moreover have "status_code (fst (delete_student i s)) = 200"
    by (simp add: delete_student_def)
  ultimately show ?thesis using r1 r2 by blast
qed

theorem delete_student_spec_witness:
  "contains students 2 \<and> \<not> contains students 7 \<and>
   delete_student 2 students =
     (Inr [(''Message'', PStr ''Student deleted successfully'')],
      [(1, [(''name'', PStr ''anurag adarsh''), (''age'', PInt 20), (''year'', PStr ''year 26'')])]) \<and>
   delete_student 7 students = (Inr [(''Error'', PStr ''Student does not exists'')], students) \<and>
   fst (delete_student 2 (delete_times (Suc 0) 2 students)) =
     Inr [(''Error'', PStr ''Student does not exists'')]"
proof -
  have p: "contains students 2" and a: "\<not> contains students 7"
    by (simp_all add: contains_def students_def)
  have d: "snd (delete_student 2 students) =
      [(1, [(''name'', PStr ''anurag adarsh''), (''age'', PInt 20), (''year'', PStr ''year 26'')])]"
    by (simp add: delete_student_def contains_def students_def)
  from delete_student_spec [of students 2 0] p
  have m: "fst (delete_student 2 students) =
      Inr [(''Message'', PStr ''Student deleted successfully'')]"
    and e: "fst (delete_student 2 (delete_times (Suc 0) 2 students)) =
      Inr [(''Error'', PStr ''Student does not exists'')]"
    by blast+
  from delete_student_spec [of students 7 0] a
  have n: "delete_student 7 students =
      (Inr [(''Error'', PStr ''Student does not exists'')], students)"
    by blast
  from m d have "delete_student 2 students =
     (Inr [(''Message'', PStr ''Student deleted successfully'')],
      [(1, [(''name'', PStr ''anurag adarsh''), (''age'', PInt 20), (''year'', PStr ''year 26'')])])"
    by (simp add: prod_eq_iff)
  with p a n e show ?thesis by blast
qed

text \<open>
  Claim C6. \<^verbatim>\<open>GET /get-by-name/{student_id}\<close> answers as \<^verbatim>\<open>GET /get-by-name\<close> does
  for the same name, store and \<^verbatim>\<open>test\<close> (given or not): neither the path parameter nor
  the value of \<^verbatim>\<open>test\<close> changes the answer of either endpoint.
\<close>

theorem get_by_name_combine_same:
  "get_by_name_combine_route i nm test s = get_by_name_route nm test s \<and>
   get_student_by_name_combine i nm t s = get_student_by_name nm t' s \<and>
   get_by_name_combine_route i nm (Some t) s = get_by_name_combine_route i' nm (Some t') s \<and>
   get_by_name_route nm (Some t) s = get_by_name_route nm (Some t') s"
  by (cases test)
     (simp_all add: get_by_name_combine_route_def get_by_name_route_def
        get_student_by_name_combine_def get_student_by_name_def)

theorem get_by_name_combine_same_witness:
  "get_by_name_combine_route 7 (Some ''mohit'') (Some 5) students =
     get_by_name_route (Some ''mohit'') (Some 5) students \<and>
   get_by_name_combine_route 7 (Some ''mohit'') None students = Inl RequestValidationError"
  using get_by_name_combine_same [of 7 "Some ''mohit''" "Some 5" students]
    get_by_name_combine_same [of 7 "Some ''mohit''" None students]
  by (simp add: get_by_name_route_def)

text \<open>
  Claim C7. For an id in the interval (0, 4) that is not in the store and any complete
  Student body, \<^verbatim>\<open>POST /create-student/{student_id}\<close> returns the record with status 200
  and \<^verbatim>\<open>GET /get-student/{student_id}\<close> on the resulting store returns the same record,
  with the three fields of the body, with status 200.
\<close>

theorem create_then_get:
  assumes "0 < i \<and> i < 4" and "\<not> contains s i"
  shows "fst (create_student i st s) = Inr (dict st) \<and>
         status_code (fst (create_student i st s)) = 200 \<and>
         get_student_route i (snd (create_student i st s)) = Inr (dict st) \<and>
         status_code (get_student_route i (snd (create_student i st s))) = 200 \<and>
         dict st = [(''name'', PStr (name st)), (''age'', PInt (age st)), (''year'', PStr (year st))]"
  using assms
  by (simp add: create_student_def Let_def getitem_simps map_of_update_same
      get_student_route_def get_student_def contains_def dict_def)

theorem create_then_get_witness:
  "(0::int) < 3 \<and> (3::int) < 4 \<and> \<not> contains students 3 \<and>
   get_student_route 3
     (snd (create_student 3 \<lparr>name = ''asha'', age = 21, year = ''year 27''\<rparr> students)) =
     Inr [(''name'', PStr ''asha''), (''age'', PInt 21), (''year'', PStr ''year 27'')]"
proof -
  have h: "\<not> contains students 3" by (simp add: contains_def students_def)
  have b: "(0::int) < 3 \<and> (3::int) < 4" by simp
  from create_then_get [OF b h, of "\<lparr>name = ''asha'', age = 21, year = ''year 27''\<rparr>"] h
  show ?thesis by simp
qed

text \<open>
  Claim C8. The seed store is well-formed, every request served on a well-formed store
  (create, update and delete among them) leaves a well-formed store, and so after any
  sequence of requests from the seed store every key maps to a record with exactly the
  fields name, age and year, the name a string, the age an integer and the year a string.
\<close>

theorem store_ok_reachable:
  "store_ok students \<and>
   (\<forall>q s. store_ok s \<longrightarrow> store_ok (snd (serve q s))) \<and>
   store_ok (run qs students) \<and>
   (\<forall>k r. map_of (run qs students) k = Some r \<longrightarrow>
      set (map fst r) = {''name'', ''age'', ''year''} \<and> distinct (map fst r) \<and>
      (\<exists>n a y. map_of r ''name'' = Some (PStr n) \<and> map_of r ''age'' = Some (PInt a) \<and>
         map_of r ''year'' = Some (PStr y)))"
proof -
  have ok: "store_ok (run qs students)"
    by (rule run_store_ok [OF store_ok_students])
  have "set (map fst r) = {''name'', ''age'', ''year''} \<and> distinct (map fst r) \<and>
      (\<exists>n a y. map_of r ''name'' = Some (PStr n) \<and> map_of r ''age'' = Some (PInt a) \<and>
         map_of r ''year'' = Some (PStr y))"
    if "map_of (run qs students) k = Some r" for k r
  proof -
    from ok that have f: "full_record r" by (rule store_ok_lookup)
    then have "is_str (map_of r ''name'')" "is_int (map_of r ''age'')" "is_str (map_of r ''year'')"
      by (simp_all add: full_record_def)
    then have "\<exists>n. map_of r ''name'' = Some (PStr n)" "\<exists>a. map_of r ''age'' = Some (PInt a)"
      "\<exists>y. map_of r ''year'' = Some (PStr y)"
      by (auto elim: is_str.elims is_int.elims)
    with f show ?thesis by (auto simp: full_record_def)
  qed
  with ok store_ok_students serve_store_ok show ?thesis by blast
qed

theorem store_ok_reachable_witness:
  "run [CreateStudent 3 \<lparr>name = ''asha'', age = 21, year = ''year 27''\<rparr>,
        PutStudent 1 \<lparr>body_name = Absent, body_age = Given 99, body_year = Null\<rparr>,
        DeleteStudent 2] students =
     [(1, [(''name'', PStr ''anurag adarsh''), (''age'', PInt 99), (''year'', PStr ''year 26'')]),
      (3, [(''name'', PStr ''asha''), (''age'', PInt 21), (''year'', PStr ''year 27'')])] \<and>
   store_ok
     [(1, [(''name'', PStr ''anurag adarsh''), (''age'', PInt 99), (''year'', PStr ''year 26'')]),
      (3, [(''name'', PStr ''asha''), (''age'', PInt 21), (''year'', PStr ''year 27'')])]"
proof -
  let ?qs = "[CreateStudent 3 \<lparr>name = ''asha'', age = 21, year = ''year 27''\<rparr>,
        PutStudent 1 \<lparr>body_name = Absent, body_age = Given 99, body_year = Null\<rparr>,
        DeleteStudent 2]"
  have r: "run ?qs students =
     [(1, [(''name'', PStr ''anurag adarsh''), (''age'', PInt 99), (''year'', PStr ''year 26'')]),
      (3, [(''name'', PStr ''asha''), (''age'', PInt 21), (''year'', PStr ''year 27'')])]"
    by (simp add: students_def create_student_def update_student_def delete_student_def
        contains_def dict_def parse_UpdateStudent_def assign_if_given_def setfield_def getitem_def)
  from store_ok_reachable [of ?qs] have "store_ok (run ?qs students)" by blast
  with r show ?thesis by simp
qed

text \<open>
  Claim C9. For an id outside the interval (0, 4): \<^verbatim>\<open>POST /create-student\<close> on an id
  that is not in the store inserts the record and returns it with status 200, while
  \<^verbatim>\<open>GET /get-student\<close> on that id answers 422 on every store, so the record cannot be
  read back through it. On such an id that is in the store, update returns and stores the
  merged record and delete removes the entry, both with status 200.
\<close>

theorem no_bound_outside_get_student:
  assumes "\<not> (0 < i \<and> i < 4)"
  shows "(\<not> contains s i \<longrightarrow>
            fst (serve (CreateStudent i st) s) = Inr (dict st) \<and>
            status_code (fst (serve (CreateStudent i st) s)) = 200 \<and>
            map_of (snd (serve (CreateStudent i st) s)) i = Some (dict st)) \<and>
         (\<forall>t. fst (serve (GetStudent i) t) = Inl RequestValidationError \<and>
              status_code (fst (serve (GetStudent i) t)) = 422) \<and>
         (\<forall>r. map_of s i = Some r \<longrightarrow>
            fst (serve (PutStudent i b) s) = Inr (merged (parse_UpdateStudent b) r) \<and>
            status_code (fst (serve (PutStudent i b) s)) = 200 \<and>
            map_of (snd (serve (PutStudent i b) s)) i = Some (merged (parse_UpdateStudent b) r) \<and>
            fst (serve (DeleteStudent i) s) =
              Inr [(''Message'', PStr ''Student deleted successfully'')] \<and>
            status_code (fst (serve (DeleteStudent i) s)) = 200 \<and>
            \<not> contains (snd (serve (DeleteStudent i) s)) i)"
proof -
  have "\<not> contains s i \<longrightarrow>
            fst (serve (CreateStudent i st) s) = Inr (dict st) \<and>
            status_code (fst (serve (CreateStudent i st) s)) = 200 \<and>
            map_of (snd (serve (CreateStudent i st) s)) i = Some (dict st)"
    by (simp add: create_student_def Let_def getitem_simps map_of_update_same)
  moreover have "\<forall>t. fst (serve (GetStudent i) t) = Inl RequestValidationError \<and>
              status_code (fst (serve (GetStudent i) t)) = 422"
    using assms by (auto simp: get_student_route_def)
  moreover have "fst (serve (PutStudent i b) s) = Inr (merged (parse_UpdateStudent b) r) \<and>
            status_code (fst (serve (PutStudent i b) s)) = 200 \<and>
            map_of (snd (serve (PutStudent i b) s)) i = Some (merged (parse_UpdateStudent b) r)"
    if "map_of s i = Some r" for r
    using that by (simp add: update_student_present map_of_update_same)
  moreover have "fst (serve (DeleteStudent i) s) =
              Inr [(''Message'', PStr ''Student deleted successfully'')] \<and>
            status_code (fst (serve (DeleteStudent i) s)) = 200 \<and>
            \<not> contains (snd (serve (DeleteStudent i) s)) i"
    if "map_of s i = Some r" for r
    using that by (simp add: delete_student_def contains_def AList.delete_conv')
  ultimately show ?thesis by blast
qed

theorem no_bound_outside_get_student_witness:
  "\<not> (0 < (999::int) \<and> (999::int) < 4) \<and> \<not> contains students 999 \<and>
   map_of (snd (serve (CreateStudent 999 \<lparr>name = ''asha'', age = 21, year = ''year 27''\<rparr>)
     students)) 999 =
     Some [(''name'', PStr ''asha''), (''age'', PInt 21), (''year'', PStr ''year 27'')] \<and>
   fst (serve (GetStudent 999)
     (snd (serve (CreateStudent 999 \<lparr>name = ''asha'', age = 21, year = ''year 27''\<rparr>)
        students))) = Inl RequestValidationError \<and>
   \<not> (0 < (0::int) \<and> (0::int) < 4) \<and>
   map_of [(0::int, dict \<lparr>name = ''asha'', age = 21, year = ''year 27''\<rparr>)] 0 =
     Some (dict \<lparr>name = ''asha'', age = 21, year = ''year 27''\<rparr>) \<and>
   fst (serve (DeleteStudent 0) [(0, dict \<lparr>name = ''asha'', age = 21, year = ''year 27''\<rparr>)]) =
     Inr [(''Message'', PStr ''Student deleted successfully'')] \<and>
   fst (serve (PutStudent 0 \<lparr>body_name = Given ''bela'', body_age = Absent, body_year = Absent\<rparr>)
     [(0, dict \<lparr>name = ''asha'', age = 21, year = ''year 27''\<rparr>)]) =
     Inr [(''name'', PStr ''bela''), (''age'', PInt 21), (''year'', PStr ''year 27'')]"
proof -
  let ?st = "\<lparr>name = ''asha'', age = 21, year = ''year 27''\<rparr>"
  let ?b = "\<lparr>body_name = Given ''bela'', body_age = Absent, body_year = Absent\<rparr>"
  have o1: "\<not> (0 < (999::int) \<and> (999::int) < 4)" and o2: "\<not> (0 < (0::int) \<and> (0::int) < 4)"
    by simp_all
  have a: "\<not> contains students 999" by (simp add: contains_def students_def)
  have p: "map_of [(0, dict ?st)] (0::int) = Some (dict ?st)" by simp
  have m: "merged (parse_UpdateStudent ?b) (dict ?st) =
      [(''name'', PStr ''bela''), (''age'', PInt 21), (''year'', PStr ''year 27'')]"
    by (simp add: merged_def put_field_def parse_UpdateStudent_def dict_def)
  have d: "dict ?st = [(''name'', PStr ''asha''), (''age'', PInt 21), (''year'', PStr ''year 27'')]"
    by (simp add: dict_def)
  from no_bound_outside_get_student [OF o1, of students ?st] a d
  have c1: "map_of (snd (serve (CreateStudent 999 ?st) students)) 999 =
     Some [(''name'', PStr ''asha''), (''age'', PInt 21), (''year'', PStr ''year 27'')]"
    and c2: "fst (serve (GetStudent 999) (snd (serve (CreateStudent 999 ?st) students))) =
     Inl RequestValidationError"
    by metis+
  from no_bound_outside_get_student [OF o2, of "[(0, dict ?st)]" _ ?b] p m
  have c3: "fst (serve (DeleteStudent 0) [(0, dict ?st)]) =
     Inr [(''Message'', PStr ''Student deleted successfully'')]"
    and c4: "fst (serve (PutStudent 0 ?b) [(0, dict ?st)]) =
     Inr [(''name'', PStr ''bela''), (''age'', PInt 21), (''year'', PStr ''year 27'')]"
    by metis+
  show ?thesis by (intro conjI o1 o2 a p c1 c2 c3 c4)
qed

lemma optional_null_to_absent: "optional (null_to_absent f) = optional f"
  by (cases f) simp_all

lemma parse_drop_nulls: "parse_UpdateStudent (drop_nulls b) = parse_UpdateStudent b"
  by (simp add: parse_UpdateStudent_def drop_nulls_def optional_null_to_absent)

text \<open>
  Claim C10. \<^verbatim>\<open>PUT /update-student/{student_id}\<close> answers and changes the store in the
  same way for a body and for the body with its \<^verbatim>\<open>null\<close> fields left out. On an id of
  the store a field given as \<^verbatim>\<open>null\<close> keeps its stored value, and any \<^verbatim>\<open>None\<close> found
  in a record after the update was in that record before it: none is written.
\<close>

theorem update_null_is_absent:
  "serve (PutStudent i b) s = serve (PutStudent i (drop_nulls b)) s \<and>
   (\<forall>r. map_of s i = Some r \<longrightarrow>
      (\<exists>r'. map_of (snd (serve (PutStudent i b) s)) i = Some r' \<and>
         (body_name b = Null \<longrightarrow> map_of r' ''name'' = map_of r ''name'') \<and>
         (body_age b = Null \<longrightarrow> map_of r' ''age'' = map_of r ''age'') \<and>
         (body_year b = Null \<longrightarrow> map_of r' ''year'' = map_of r ''year''))) \<and>
   (\<forall>k r' f. map_of (snd (serve (PutStudent i b) s)) k = Some r' \<and> map_of r' f = Some PNone \<longrightarrow>
      (\<exists>r. map_of s k = Some r \<and> map_of r f = Some PNone))"
proof -
  let ?u = "parse_UpdateStudent b"
  have same: "serve (PutStudent i b) s = serve (PutStudent i (drop_nulls b)) s"
    by (simp add: parse_drop_nulls)
  have kept: "\<exists>r'. map_of (snd (serve (PutStudent i b) s)) i = Some r' \<and>
         (body_name b = Null \<longrightarrow> map_of r' ''name'' = map_of r ''name'') \<and>
         (body_age b = Null \<longrightarrow> map_of r' ''age'' = map_of r ''age'') \<and>
         (body_year b = Null \<longrightarrow> map_of r' ''year'' = map_of r ''year'')"
    if "map_of s i = Some r" for r
  proof (intro exI conjI)
    show "map_of (snd (serve (PutStudent i b) s)) i = Some (merged ?u r)"
      using that by (simp add: update_student_present map_of_update_same)
  qed (simp_all add: map_of_merged parse_UpdateStudent_def)
  have nonull: "\<exists>r. map_of s k = Some r \<and> map_of r f = Some PNone"
    if h: "map_of (snd (serve (PutStudent i b) s)) k = Some r'" "map_of r' f = Some PNone"
    for k r' f
  proof (cases "map_of s i")
    case None
    with h show ?thesis by (simp add: update_student_absent)
  next
    case (Some r)
    show ?thesis
    proof (cases "k = i")
      case True
      with h(1) Some have "r' = merged ?u r"
        by (simp add: update_student_present map_of_update_same)
      with h(2) have "map_of r f = Some PNone"
        by (auto simp: map_of_merged split: if_splits)
      with Some True show ?thesis by simp
    next
      case False
      with h Some show ?thesis
        by (simp add: update_student_present AList.update_conv')
    qed
  qed
  from same kept nonull show ?thesis by blast
qed

theorem update_null_is_absent_witness:
  "map_of students 1 =
     Some [(''name'', PStr ''anurag adarsh''), (''age'', PInt 20), (''year'', PStr ''year 26'')] \<and>
   serve (PutStudent 1 \<lparr>body_name = Null, body_age = Given 99, body_year = Null\<rparr>) students =
   serve (PutStudent 1 \<lparr>body_name = Absent, body_age = Given 99, body_year = Absent\<rparr>) students \<and>
   snd (serve (PutStudent 1 \<lparr>body_name = Null, body_age = Given 99, body_year = Null\<rparr>) students) =
     [(1, [(''name'', PStr ''anurag adarsh''), (''age'', PInt 99), (''year'', PStr ''year 26'')]),
      (2, [(''name'', PStr ''mohit''), (''age'', PInt 22), (''year'', PStr ''year 26'')])]"
proof -
  let ?b = "\<lparr>body_name = Null, body_age = Given 99, body_year = Null\<rparr>"
  have h: "map_of students 1 =
     Some [(''name'', PStr ''anurag adarsh''), (''age'', PInt 20), (''year'', PStr ''year 26'')]"
    by (simp add: students_def)
  have d: "drop_nulls ?b = \<lparr>body_name = Absent, body_age = Given 99, body_year = Absent\<rparr>"
    by (simp add: drop_nulls_def)
  have r: "snd (serve (PutStudent 1 ?b) students) =
     [(1, [(''name'', PStr ''anurag adarsh''), (''age'', PInt 99), (''year'', PStr ''year 26'')]),
      (2, [(''name'', PStr ''mohit''), (''age'', PInt 22), (''year'', PStr ''year 26'')])]"
    by (simp add: students_def update_student_def contains_def parse_UpdateStudent_def
        assign_if_given_def setfield_def getitem_def)
  from update_null_is_absent [of 1 ?b students]
  have "serve (PutStudent 1 ?b) students = serve (PutStudent 1 (drop_nulls ?b)) students"
    by blast
  with h d r show ?thesis by simp
qed

end
